theory Spec2Isabelle
  imports Complex_Main "HOL-Library.Word"
begin

section \<open>JavaScript values\<close>

text \<open>
  The module under study is \<^verbatim>\<open>lib/timestamp\<close> of SwapTZ (TypeScript). Its types are
  erased at run time, so arguments are modelled as run-time values. A string is its
  sequence of UTF-16 code units.
\<close>

type_synonym code_unit = "16 word"
type_synonym jsstring = "code_unit list"

text \<open>The code units of a literal; every literal of the module is ASCII.\<close>

definition utf16 :: "string \<Rightarrow> jsstring" where
  "utf16 s = map of_char s"

text \<open>
  A Number is NaN, an infinity, or a finite value. Finite doubles are rationals; the two
  zeros are identified (no operation of the module tells them apart: \<^verbatim>\<open>-0 < 0\<close> is false
  and \<^verbatim>\<open>String(-0)\<close> is \<^verbatim>\<open>"0"\<close>). Arithmetic on finite values is exact in the model.
\<close>

datatype jsnum = NaN | PosInfinity | NegInfinity | Finite rat

datatype jsval =
    JUndefined
  | JNull
  | JBoolean bool
  | JNumber jsnum
  | JString jsstring
  | JObject

text \<open>A parameter with a default value: \<^verbatim>\<open>undefined\<close> is replaced by the default.\<close>

definition withDefault :: "jsval \<Rightarrow> string \<Rightarrow> jsval" where
  "withDefault v d = (if v = JUndefined then JString (utf16 d) else v)"

text \<open>A thrown value: the constructor it is an instance of, and its message.\<close>

datatype exn = Error jsstring | RangeError jsstring

section \<open>String built-ins\<close>

fun startsWith :: "jsstring \<Rightarrow> jsstring \<Rightarrow> bool" where
  "startsWith s [] = True"
| "startsWith [] (p # ps) = False"
| "startsWith (c # cs) (p # ps) = (c = p \<and> startsWith cs ps)"

text \<open>\<^verbatim>\<open>s.includes(pat)\<close>: some suffix of \<open>s\<close> starts with \<open>pat\<close>.\<close>

fun includes_js :: "jsstring \<Rightarrow> jsstring \<Rightarrow> bool" where
  "includes_js [] pat = (pat = [])"
| "includes_js (c # cs) pat = (startsWith (c # cs) pat \<or> includes_js cs pat)"

text \<open>
  \<^verbatim>\<open>s.replace(pat, rep)\<close> with a string pattern: the first occurrence only. The
  replacements of the module are empty, so no \<^verbatim>\<open>$\<close> pattern arises.
\<close>

fun replace :: "jsstring \<Rightarrow> jsstring \<Rightarrow> jsstring \<Rightarrow> jsstring" where
  "replace [] pat rep = (if pat = [] then rep else [])"
| "replace (c # cs) pat rep =
     (if startsWith (c # cs) pat then rep @ drop (length pat) (c # cs)
      else c # replace cs pat rep)"

text \<open>
  \<^verbatim>\<open>String(n)\<close> for an integral Number of at most \<open>2\<^sup>5\<^sup>3\<close> in magnitude, where every
  integer is a double and is printed exactly: the decimal digits, with a minus sign for a
  negative value. The magnitudes of the relative-time phrases are far below that.
\<close>

function natDigits :: "nat \<Rightarrow> jsstring" where
  "natDigits n =
     (if n < 10 then [of_nat (48 + n)]
      else natDigits (n div 10) @ [of_nat (48 + n mod 10)])"
  by pat_completeness auto
termination
  by (relation "measure (\<lambda>n. n)") auto

declare natDigits.simps [simp del]

definition intToString :: "int \<Rightarrow> jsstring" where
  "intToString i = (if i < 0 then 0x2D # natDigits (nat (- i)) else natDigits (nat i))"

text \<open>
  \<^verbatim>\<open>String(x)\<close> for a finite Number \<open>x\<close> with \<open>1 \<le> x < 2\<^sup>5\<^sup>3\<close>. There the notation is
  fixed and the integer part is printed exactly: the digits of \<open>\<lfloor>x\<rfloor>\<close> and, for a
  non-integral \<open>x\<close>, a point and the fraction digits. The fraction digits are those of
  the shortest decimal that reads back as the double, which the value alone does not
  give, so they are a parameter. Outside that range the result is not modelled
  (\<open>None\<close>): from \<open>2\<^sup>5\<^sup>3\<close> the digits are a shortest decimal padded with zeros, from
  \<open>10\<^sup>2\<^sup>1\<close> the notation has an exponent.
\<close>

definition numberToString :: "rat \<Rightarrow> jsstring \<Rightarrow> jsstring option" where
  "numberToString x fraction =
     (if 1 \<le> x \<and> x < 9007199254740992
      then Some (natDigits (nat \<lfloor>x\<rfloor>) @ (if of_int \<lfloor>x\<rfloor> = x then [] else 0x2E # fraction))
      else None)"

section \<open>parseInt with radix 10\<close>

text \<open>
  \<^verbatim>\<open>parseInt(string, 10)\<close> as ECMAScript defines it: leading white space and line
  terminators are trimmed, one sign is read, and the longest run of decimal digits is the
  numeral; an empty run gives NaN (here \<open>None\<close>). The result is the Number nearest to
  the signed value. That rounding is monotone and exact on integers up to \<open>2\<^sup>5\<^sup>3\<close>, so
  comparing the exact value with the bounds \<open>0\<close> and \<open>4102444800\<close> decides as the
  Number does, and a value inside the bounds is returned exactly.
\<close>

definition isWhiteSpace :: "code_unit \<Rightarrow> bool" where
  "isWhiteSpace c \<longleftrightarrow>
     c = 0x0009 \<or> c = 0x000A \<or> c = 0x000B \<or> c = 0x000C \<or> c = 0x000D \<or>
     c = 0x0020 \<or> c = 0x00A0 \<or> c = 0x1680 \<or> (0x2000 \<le> c \<and> c \<le> 0x200A) \<or>
     c = 0x2028 \<or> c = 0x2029 \<or> c = 0x202F \<or> c = 0x205F \<or> c = 0x3000 \<or>
     c = 0xFEFF"

definition isDigit :: "code_unit \<Rightarrow> bool" where
  "isDigit c \<longleftrightarrow> 0x30 \<le> c \<and> c \<le> 0x39"

definition digitValue :: "code_unit \<Rightarrow> nat" where
  "digitValue c = unat c - 48"

definition mathInt :: "jsstring \<Rightarrow> nat" where
  "mathInt Z = foldl (\<lambda>acc c. 10 * acc + digitValue c) 0 Z"

definition parseInt10 :: "jsstring \<Rightarrow> int option" where
  "parseInt10 inputString =
     (let S = dropWhile isWhiteSpace inputString;
          sign = (if S \<noteq> [] \<and> hd S = 0x2D then - 1 else 1 :: int);
          S' = (if S \<noteq> [] \<and> (hd S = 0x2B \<or> hd S = 0x2D) then tl S else S);
          Z = takeWhile isDigit S'
      in if Z = [] then None else Some (sign * int (mathInt Z)))"

section \<open>Validation\<close>

definition MIN_TIMESTAMP :: int where
  "MIN_TIMESTAMP = 0"

definition MAX_TIMESTAMP :: int where
  "MAX_TIMESTAMP = 4102444800"

text \<open>
  \<^verbatim>\<open>validateTimestamp\<close>: \<open>None\<close> is the \<^verbatim>\<open>null\<close> result. The first test rejects
  every falsy value and every non-string; among strings only the empty one is falsy.
  Nothing in the body can throw, and its \<^verbatim>\<open>catch\<close> returns \<^verbatim>\<open>null\<close> too.
\<close>

definition validateTimestamp :: "jsval \<Rightarrow> int option" where
  "validateTimestamp timestampStr =
     (case timestampStr of
        JString s \<Rightarrow>
          if s = [] then None
          else (case parseInt10 s of
                  None \<Rightarrow> None
                | Some timestamp \<Rightarrow>
                    if timestamp < MIN_TIMESTAMP \<or> timestamp > MAX_TIMESTAMP then None
                    else Some timestamp)
      | _ \<Rightarrow> None)"

text \<open>\<^verbatim>\<open>isValidTimestamp\<close>: a Number, finite, and not below zero.\<close>

definition isValidTimestamp :: "jsval \<Rightarrow> bool" where
  "isValidTimestamp v =
     (case v of JNumber (Finite x) \<Rightarrow> x \<ge> 0 | _ \<Rightarrow> False)"

text \<open>
  The parse as the specification words it: an optional sign at the very start of the
  string, then the leading run of decimal digits, stopping at the first non-digit; no
  digits means no parse.
\<close>

definition spec_digitRun :: "jsstring \<Rightarrow> nat option" where
  "spec_digitRun s = (case takeWhile isDigit s of [] \<Rightarrow> None | d # ds \<Rightarrow> Some (mathInt (d # ds)))"

fun spec_leadingInteger :: "jsstring \<Rightarrow> int option" where
  "spec_leadingInteger [] = None"
| "spec_leadingInteger (c # cs) =
     (if c = 0x2D then map_option (\<lambda>n. - int n) (spec_digitRun cs)
      else if c = 0x2B then map_option int (spec_digitRun cs)
      else map_option int (spec_digitRun (c # cs)))"

section \<open>The host environment\<close>

text \<open>
  The module delegates to the JavaScript host: \<^verbatim>\<open>Intl.DateTimeFormat\<close>, the \<^verbatim>\<open>Date\<close>
  built-ins and the clock. ECMA-402 leaves the rendered text and the message of an
  error to the implementation, so they are fields of the host:
  \<^item> \<open>isValidTimeZone\<close>: whether the host recognises a time zone identifier;
  \<^item> \<open>timeZoneErrorMessage\<close>: the message of the \<^verbatim>\<open>RangeError\<close> thrown for an
    identifier it does not recognise;
  \<^item> \<open>formatDateOnly\<close>, \<open>formatCompact\<close>, \<open>formatDefault\<close>: the \<^verbatim>\<open>en-GB\<close> renderings
    with the option sets of the modes \<^verbatim>\<open>date\<close>, \<^verbatim>\<open>compact\<close> and \<^verbatim>\<open>default\<close>, for a
    recognised zone and a time value in milliseconds;
  \<^item> \<open>toLocaleString\<close>: \<^verbatim>\<open>date.toLocaleString('en-US', { timeZone })\<close>;
  \<^item> \<open>parseDate\<close>: the time value \<^verbatim>\<open>new Date(string)\<close> gets (\<open>None\<close> is NaN); a
    string without an offset is read in the local time zone of the host;
  \<^item> \<open>toISOString\<close> of a valid time value, and \<open>invalidTimeMessage\<close>, the message of
    the \<^verbatim>\<open>RangeError\<close> that \<^verbatim>\<open>toISOString\<close> throws on an invalid date;
  \<^item> \<open>now\<close>: the time value of \<^verbatim>\<open>new Date()\<close> at the call.
\<close>

record host =
  isValidTimeZone :: "jsstring \<Rightarrow> bool"
  timeZoneErrorMessage :: "jsstring \<Rightarrow> jsstring"
  formatDateOnly :: "jsstring \<Rightarrow> int \<Rightarrow> jsstring"
  formatCompact :: "jsstring \<Rightarrow> int \<Rightarrow> jsstring"
  formatDefault :: "jsstring \<Rightarrow> int \<Rightarrow> jsstring"
  toLocaleString :: "jsstring \<Rightarrow> int \<Rightarrow> jsstring"
  parseDate :: "jsstring \<Rightarrow> int option"
  toISOString :: "int \<Rightarrow> jsstring"
  invalidTimeMessage :: jsstring
  now :: int

text \<open>
  Every use of a time zone goes through the same check of the host: an unrecognised
  identifier throws, a recognised one renders.
\<close>

definition withTimeZone ::
  "host \<Rightarrow> (jsstring \<Rightarrow> int \<Rightarrow> jsstring) \<Rightarrow> jsstring \<Rightarrow> int \<Rightarrow> exn + jsstring" where
  "withTimeZone h render timezone t =
     (if isValidTimeZone h timezone then Inr (render timezone t)
      else Inl (RangeError (timeZoneErrorMessage h timezone)))"

text \<open>
  \<^verbatim>\<open>new Date(value)\<close> for a finite Number: the time value is the number truncated
  towards zero, or NaN (\<open>None\<close>) beyond \<open>8.64 \<times> 10\<^sup>1\<^sup>5\<close> milliseconds either way.
\<close>

definition newDate :: "rat \<Rightarrow> int option" where
  "newDate tv =
     (if \<bar>tv\<bar> > 8640000000000000 then None
      else Some (if tv < 0 then - \<lfloor>- tv\<rfloor> else \<lfloor>tv\<rfloor>))"

text \<open>\<^verbatim>\<open>Math.round\<close>: the nearest integer, a tie going up.\<close>

definition Math_round :: "rat \<Rightarrow> int" where
  "Math_round x = \<lfloor>x + 1 / 2\<rfloor>"

section \<open>Relative time\<close>

text \<open>
  \<^verbatim>\<open>getRelativeTime\<close>. The argument is the time value of the \<^verbatim>\<open>Date\<close> (\<open>None\<close> for an
  invalid date). The six buckets are written out as the source writes them. Time values
  are integers and the quotients are taken exactly. For a difference below \<open>2\<^sup>5\<^sup>3\<close> in
  magnitude (any date against a clock of the present era) the doubles of the source give
  the same integers: the difference is exact, a tie is a double, and any other quotient
  of the chain is further from a tie than the rounding of a double can move it.
\<close>

definition getRelativeTime :: "host \<Rightarrow> int option \<Rightarrow> exn + jsstring" where
  "getRelativeTime h date =
     (case date of
        None \<Rightarrow> Inl (Error (utf16 ''Invalid date provided to getRelativeTime''))
      | Some time \<Rightarrow>
          let diffMs = time - now h;
              diffSec = Math_round (of_int diffMs / 1000);
              diffMin = Math_round (of_int diffSec / 60);
              diffHour = Math_round (of_int diffMin / 60);
              diffDay = Math_round (of_int diffHour / 24)
          in
          if \<bar>diffDay\<bar> \<ge> 365 then
            (let diffYear = Math_round (of_int diffDay / 365) in
             Inr (if diffYear > 0
                  then utf16 ''in '' @ intToString diffYear @ utf16 '' year'' @
                       (if diffYear = 1 then [] else utf16 ''s'')
                  else intToString (- diffYear) @ utf16 '' year'' @
                       (if diffYear = - 1 then [] else utf16 ''s'') @ utf16 '' ago''))
          else if \<bar>diffDay\<bar> \<ge> 7 then
            (let diffWeek = Math_round (of_int diffDay / 7) in
             Inr (if diffWeek > 0
                  then utf16 ''in '' @ intToString diffWeek @ utf16 '' week'' @
                       (if diffWeek = 1 then [] else utf16 ''s'')
                  else intToString (- diffWeek) @ utf16 '' week'' @
                       (if diffWeek = - 1 then [] else utf16 ''s'') @ utf16 '' ago''))
          else if \<bar>diffSec\<bar> < 60 then
            Inr (if diffSec > 0
                 then utf16 ''in '' @ intToString diffSec @ utf16 '' second'' @
                      (if diffSec = 1 then [] else utf16 ''s'')
                 else intToString (- diffSec) @ utf16 '' second'' @
                      (if diffSec = - 1 then [] else utf16 ''s'') @ utf16 '' ago'')
          else if \<bar>diffMin\<bar> < 60 then
            Inr (if diffMin > 0
                 then utf16 ''in '' @ intToString diffMin @ utf16 '' minute'' @
                      (if diffMin = 1 then [] else utf16 ''s'')
                 else intToString (- diffMin) @ utf16 '' minute'' @
                      (if diffMin = - 1 then [] else utf16 ''s'') @ utf16 '' ago'')
          else if \<bar>diffHour\<bar> < 24 then
            Inr (if diffHour > 0
                 then utf16 ''in '' @ intToString diffHour @ utf16 '' hour'' @
                      (if diffHour = 1 then [] else utf16 ''s'')
                 else intToString (- diffHour) @ utf16 '' hour'' @
                      (if diffHour = - 1 then [] else utf16 ''s'') @ utf16 '' ago'')
          else
            Inr (if diffDay > 0
                 then utf16 ''in '' @ intToString diffDay @ utf16 '' day'' @
                      (if diffDay = 1 then [] else utf16 ''s'')
                 else intToString (- diffDay) @ utf16 '' day'' @
                      (if diffDay = - 1 then [] else utf16 ''s'') @ utf16 '' ago''))"

text \<open>
  The algorithm as the specification words it: the chain of rounded differences, the
  bucket chosen from them with its magnitude, and the phrase for a bucket and a
  magnitude.
\<close>

datatype bucket = Years | Weeks | Seconds | Minutes | Hours | Days

fun spec_unitName :: "bucket \<Rightarrow> jsstring" where
  "spec_unitName Years = utf16 ''year''"
| "spec_unitName Weeks = utf16 ''week''"
| "spec_unitName Seconds = utf16 ''second''"
| "spec_unitName Minutes = utf16 ''minute''"
| "spec_unitName Hours = utf16 ''hour''"
| "spec_unitName Days = utf16 ''day''"

definition spec_selectBucket :: "int \<Rightarrow> bucket \<times> int" where
  "spec_selectBucket diffMs =
     (let diffSec = Math_round (of_int diffMs / 1000);
          diffMin = Math_round (of_int diffSec / 60);
          diffHour = Math_round (of_int diffMin / 60);
          diffDay = Math_round (of_int diffHour / 24)
      in if \<bar>diffDay\<bar> \<ge> 365 then (Years, Math_round (of_int diffDay / 365))
         else if \<bar>diffDay\<bar> \<ge> 7 then (Weeks, Math_round (of_int diffDay / 7))
         else if \<bar>diffSec\<bar> < 60 then (Seconds, diffSec)
         else if \<bar>diffMin\<bar> < 60 then (Minutes, diffMin)
         else if \<bar>diffHour\<bar> < 24 then (Hours, diffHour)
         else (Days, diffDay))"

fun spec_phrase :: "bucket \<times> int \<Rightarrow> jsstring" where
  "spec_phrase (u, n) =
     (let units = spec_unitName u @ (if \<bar>n\<bar> = 1 then [] else utf16 ''s'')
      in if n > 0 then utf16 ''in '' @ intToString n @ utf16 '' '' @ units
         else intToString \<bar>n\<bar> @ utf16 '' '' @ units @ utf16 '' ago'')"

section \<open>Formatting\<close>

text \<open>
  The body of the \<^verbatim>\<open>try\<close> block of \<^verbatim>\<open>formatTimestamp\<close>, for a timestamp and a time
  zone that have passed the two checks before it. The \<^verbatim>\<open>switch\<close> compares the mode
  with four string literals; anything else reaches the \<^verbatim>\<open>default\<close> label. The product
  \<^verbatim>\<open>timestamp * 1000\<close> is exact in the model, as it is in doubles for the integral
  timestamps that \<^verbatim>\<open>validateTimestamp\<close> returns.
\<close>

definition tryBlock :: "host \<Rightarrow> rat \<Rightarrow> jsstring \<Rightarrow> jsval \<Rightarrow> exn + jsstring" where
  "tryBlock h timestamp timezone mode =
     (case newDate (timestamp * 1000) of
        None \<Rightarrow> Inl (Error (utf16 ''Invalid timestamp: results in invalid date''))
      | Some date \<Rightarrow>
          if mode = JString (utf16 ''date'') then
            withTimeZone h (formatDateOnly h) timezone date
          else if mode = JString (utf16 ''compact'') then
            (case withTimeZone h (formatCompact h) timezone date of
               Inl e \<Rightarrow> Inl e
             | Inr s \<Rightarrow> Inr (replace s (utf16 '','') []))
          else if mode = JString (utf16 ''iso'') then
            (case withTimeZone h (toLocaleString h) timezone date of
               Inl e \<Rightarrow> Inl e
             | Inr s \<Rightarrow>
                 (case parseDate h s of
                    None \<Rightarrow> Inl (RangeError (invalidTimeMessage h))
                  | Some tzDate \<Rightarrow> Inr (replace (toISOString h tzDate) (utf16 ''.000Z'') [])))
          else if mode = JString (utf16 ''relative'') then
            getRelativeTime h (Some date)
          else
            withTimeZone h (formatDefault h) timezone date)"

text \<open>The test of the \<^verbatim>\<open>catch\<close> clause: a \<^verbatim>\<open>RangeError\<close> whose message contains \<^verbatim>\<open>timezone\<close>.\<close>

fun isTimezoneError :: "exn \<Rightarrow> bool" where
  "isTimezoneError (RangeError message) = includes_js message (utf16 ''timezone'')"
| "isTimezoneError (Error message) = False"

text \<open>
  \<^verbatim>\<open>formatTimestamp\<close>. An argument that is \<^verbatim>\<open>undefined\<close> takes its default. The retry
  in the \<^verbatim>\<open>catch\<close> clause is a recursive call, which nothing in the source bounds: the
  result is an option, \<open>None\<close> standing for a recursion that never returns (in a
  JavaScript engine, one that exhausts the call stack). Console output is not modelled.
\<close>

partial_function (option) formatTimestamp ::
  "host \<Rightarrow> jsval \<Rightarrow> jsval \<Rightarrow> jsval \<Rightarrow> (exn + jsstring) option" where
  "formatTimestamp h timestamp timezone0 mode0 =
     (let timezone = withDefault timezone0 ''UTC'';
          mode = withDefault mode0 ''default''
      in case timestamp of
           JNumber (Finite ts) \<Rightarrow>
             if ts < 0 then
               Some (Inl (Error (utf16 ''Invalid timestamp: must be a positive finite number'')))
             else
               (case timezone of
                  JString tz \<Rightarrow>
                    if tz = [] then
                      Some (Inl (Error (utf16 ''Invalid timezone: must be a non-empty string'')))
                    else
                      (case tryBlock h ts tz mode of
                         Inr s \<Rightarrow> Some (Inr s)
                       | Inl error \<Rightarrow>
                           if isTimezoneError error then
                             formatTimestamp h timestamp (JString (utf16 ''UTC'')) mode
                           else Some (Inl error))
                | _ \<Rightarrow>
                    Some (Inl (Error (utf16 ''Invalid timezone: must be a non-empty string''))))
         | _ \<Rightarrow>
             Some (Inl (Error (utf16 ''Invalid timestamp: must be a positive finite number''))))"

text \<open>
  \<^verbatim>\<open>safeFormatTimestamp\<close>: whatever \<^verbatim>\<open>formatTimestamp\<close> throws is caught and the
  fallback (after its default) is returned as it is.
\<close>

definition safeFormatTimestamp ::
  "host \<Rightarrow> jsval \<Rightarrow> jsval \<Rightarrow> jsval \<Rightarrow> jsval \<Rightarrow> jsval option" where
  "safeFormatTimestamp h timestamp timezone0 mode0 fallback0 =
     (let timezone = withDefault timezone0 ''UTC'';
          mode = withDefault mode0 ''default'';
          fallback = withDefault fallback0 ''Invalid timestamp''
      in case formatTimestamp h timestamp timezone mode of
           None \<Rightarrow> None
         | Some (Inr s) \<Rightarrow> Some (JString s)
         | Some (Inl error) \<Rightarrow> Some fallback)"

text \<open>
  \<^verbatim>\<open>formatTimestamp\<close> written without its recursion, for the proofs, with the
  defaults already applied. The retry always passes \<^verbatim>\<open>'UTC'\<close>, so a second failure of
  the same kind would repeat for ever; \<open>run\<close> stands for the \<^verbatim>\<open>try\<close> block at the
  mode in force.
\<close>

definition outcome ::
  "(rat \<Rightarrow> jsstring \<Rightarrow> exn + jsstring) \<Rightarrow> jsval \<Rightarrow> jsval \<Rightarrow> (exn + jsstring) option" where
  "outcome run timestamp timezone =
     (case timestamp of
        JNumber (Finite ts) \<Rightarrow>
          if ts < 0 then
            Some (Inl (Error (utf16 ''Invalid timestamp: must be a positive finite number'')))
          else
            (case timezone of
               JString tz \<Rightarrow>
                 if tz = [] then
                   Some (Inl (Error (utf16 ''Invalid timezone: must be a non-empty string'')))
                 else
                   (case run ts tz of
                      Inr s \<Rightarrow> Some (Inr s)
                    | Inl error \<Rightarrow>
                        if isTimezoneError error then
                          (case run ts (utf16 ''UTC'') of
                             Inr s \<Rightarrow> Some (Inr s)
                           | Inl error' \<Rightarrow>
                               if isTimezoneError error' then None else Some (Inl error'))
                        else Some (Inl error))
             | _ \<Rightarrow>
                 Some (Inl (Error (utf16 ''Invalid timezone: must be a non-empty string''))))
      | _ \<Rightarrow>
          Some (Inl (Error (utf16 ''Invalid timestamp: must be a positive finite number''))))"

section \<open>Hosts for concrete runs\<close>

text \<open>
  A stand-in for an engine built on V8 with current locale data, reduced to the instant
  \<open>1747510600\<close> (Saturday 17 May 2025, 19:36:40 UTC): it recognises \<^verbatim>\<open>UTC\<close> and
  \<^verbatim>\<open>Australia/Sydney\<close>, rejects any other identifier with V8's message
  \<^verbatim>\<open>Invalid time zone specified: ...\<close>, renders that instant in the two zones, runs in
  the local zone UTC, and its clock stands at that instant.
\<close>

definition inSydney :: "jsstring \<Rightarrow> bool" where
  "inSydney z = (z = utf16 ''Australia/Sydney'')"

definition engineHost :: host where
  "engineHost =
     \<lparr> isValidTimeZone = (\<lambda>z. z = utf16 ''UTC'' \<or> z = utf16 ''Australia/Sydney''),
       timeZoneErrorMessage = (\<lambda>z. utf16 ''Invalid time zone specified: '' @ z),
       formatDateOnly =
         (\<lambda>z t. if inSydney z then utf16 ''18 May 2025'' else utf16 ''17 May 2025''),
       formatCompact =
         (\<lambda>z t. if inSydney z then utf16 ''18/05/2025, 05:36''
                 else utf16 ''17/05/2025, 19:36''),
       formatDefault =
         (\<lambda>z t. if inSydney z then utf16 ''Sun 18 May 2025 at 5:36 am''
                 else utf16 ''Sat 17 May 2025 at 7:36 pm''),
       toLocaleString =
         (\<lambda>z t. if inSydney z then utf16 ''5/18/2025, 5:36:40 AM''
                 else utf16 ''5/17/2025, 7:36:40 PM''),
       parseDate =
         (\<lambda>s. if s = utf16 ''5/18/2025, 5:36:40 AM'' then Some 1747546600000
              else if s = utf16 ''5/17/2025, 7:36:40 PM'' then Some 1747510600000
              else None),
       toISOString =
         (\<lambda>t. if t = 1747546600000 then utf16 ''2025-05-18T05:36:40.000Z''
              else utf16 ''2025-05-17T19:36:40.000Z''),
       invalidTimeMessage = utf16 ''Invalid time value'',
       now = 1747510600000 \<rparr>"

text \<open>
  The same engine with older locale data, which puts commas where the newer data puts
  \<^verbatim>\<open>at\<close> in the \<^verbatim>\<open>en-GB\<close> date and time pattern.
\<close>

definition olderHost :: host where
  "olderHost =
     engineHost \<lparr> formatDefault :=
       (\<lambda>z t. if inSydney z then utf16 ''Sun, 18 May 2025, 5:36 am''
               else utf16 ''Sat, 17 May 2025, 7:36 pm'') \<rparr>"

text \<open>
  The same engine again, run where the local time zone is \<^verbatim>\<open>Australia/Sydney\<close>: the
  only difference is that \<^verbatim>\<open>new Date(string)\<close> reads a date and time without an offset
  as Sydney time, ten hours ahead of UTC on that day.
\<close>

definition sydneyLocalHost :: host where
  "sydneyLocalHost =
     engineHost \<lparr> parseDate :=
       (\<lambda>s. if s = utf16 ''5/18/2025, 5:36:40 AM'' then Some 1747510600000
            else if s = utf16 ''5/17/2025, 7:36:40 PM'' then Some 1747474600000
            else None) \<rparr>"

section \<open>Validation of the raw string\<close>

lemma signed_run_leadingInteger:
  "(let sign = (if S \<noteq> [] \<and> hd S = 0x2D then - 1 else 1 :: int);
        S' = (if S \<noteq> [] \<and> (hd S = 0x2B \<or> hd S = 0x2D) then tl S else S);
        Z = takeWhile isDigit S'
    in if Z = [] then None else Some (sign * int (mathInt Z))) = spec_leadingInteger S"
proof (cases S)
  case Nil
  then show ?thesis by simp
next
  case (Cons c cs)
  have nd: "\<not> isDigit 0x2D" "\<not> isDigit 0x2B" by (simp_all add: isDigit_def)
  show ?thesis
    unfolding Cons Let_def
    by (cases "takeWhile isDigit cs"; cases "isDigit c") (auto simp: spec_digitRun_def nd)
qed

lemma parseInt10_leadingInteger:
  "parseInt10 s = spec_leadingInteger (dropWhile isWhiteSpace s)"
  using signed_run_leadingInteger [of "dropWhile isWhiteSpace s"]
  unfolding parseInt10_def Let_def .

text \<open>
  C1, as the claim states it, fails: the claim reads the sign and the digits from the
  very start of the string and returns null when no digit leads, but \<^verbatim>\<open>parseInt\<close> first
  skips white space. The string \<^verbatim>\<open>" 5"\<close> has no leading integer run, and
  \<^verbatim>\<open>validateTimestamp\<close> returns 5 for it.
\<close>

theorem validateTimestamp_leading_space:
  "validateTimestamp (JString (utf16 '' 5'')) = Some 5 \<and> spec_leadingInteger (utf16 '' 5'') = None"
  by (simp add: validateTimestamp_def parseInt10_def utf16_def isWhiteSpace_def isDigit_def
      mathInt_def digitValue_def MIN_TIMESTAMP_def MAX_TIMESTAMP_def spec_digitRun_def)

text \<open>
  C1, amended: for every string \<open>s\<close>, \<^verbatim>\<open>validateTimestamp(s)\<close> is the integer \<open>n\<close> when
  \<open>s\<close>, after its leading white space is skipped, has a leading optionally signed run
  of decimal digits whose value \<open>n\<close> satisfies \<open>0 \<le> n \<le> 4102444800\<close>, and null in
  every other case (no digits, the empty string, \<open>n < 0\<close>, \<open>n > 4102444800\<close>). The
  result is a value in every case: the function does not throw.
\<close>

theorem validateTimestamp_range:
  "validateTimestamp (JString s) =
     (case spec_leadingInteger (dropWhile isWhiteSpace s) of
        None \<Rightarrow> None
      | Some n \<Rightarrow> if 0 \<le> n \<and> n \<le> 4102444800 then Some n else None)"
proof (cases "s = []")
  case True
  then show ?thesis by (simp add: validateTimestamp_def)
next
  case False
  then show ?thesis
    by (auto simp add: validateTimestamp_def parseInt10_leadingInteger MIN_TIMESTAMP_def
        MAX_TIMESTAMP_def split: option.splits)
qed

section \<open>The looser predicate\<close>

lemma digit_unit:
  assumes "d < 10"
  shows "unat (of_nat (48 + d) :: code_unit) = 48 + d"
proof -
  have "unat (of_nat (48 + d) :: code_unit) = (48 + d) mod 2 ^ LENGTH(16)"
    by (rule unat_of_nat)
  also have "\<dots> = 48 + d"
    using assms by simp
  finally show ?thesis .
qed

lemma digit_unit_isDigit:
  assumes "d < 10"
  shows "isDigit (of_nat (48 + d))"
  unfolding isDigit_def word_le_nat_alt digit_unit [OF assms]
  using assms by simp

lemma digit_unit_value:
  assumes "d < 10"
  shows "digitValue (of_nat (48 + d)) = d"
  unfolding digitValue_def digit_unit [OF assms] by simp

lemma isDigit_not_space: "isDigit c \<Longrightarrow> \<not> isWhiteSpace c"
  unfolding isDigit_def isWhiteSpace_def word_le_nat_alt
  by (auto simp add: word_le_nat_alt)

lemma isDigit_not_sign: "isDigit c \<Longrightarrow> c \<noteq> 0x2D \<and> c \<noteq> 0x2B"
  unfolding isDigit_def by auto

lemma natDigits_all_digits: "c \<in> set (natDigits n) \<Longrightarrow> isDigit c"
proof (induction n arbitrary: c rule: natDigits.induct)
  case (1 n)
  have unfolded: "natDigits n =
     (if n < 10 then [of_nat (48 + n)]
      else natDigits (n div 10) @ [of_nat (48 + n mod 10)])"
    by (rule natDigits.simps)
  show ?case
  proof (cases "n < 10")
    case True
    with 1(2) have "c = of_nat (48 + n)"
      unfolding unfolded by (simp del: of_nat_add)
    then show ?thesis
      using digit_unit_isDigit [OF True] by (simp del: of_nat_add)
  next
    case False
    with 1(2) have "c \<in> set (natDigits (n div 10)) \<or> c = of_nat (48 + n mod 10)"
      unfolding unfolded by (auto simp del: of_nat_add)
    then show ?thesis
      using 1(1) [OF False] digit_unit_isDigit [of "n mod 10"] by (auto simp del: of_nat_add)
  qed
qed

lemma natDigits_nonempty: "natDigits n \<noteq> []"
  by (subst natDigits.simps) simp

lemma mathInt_snoc: "mathInt (Z @ [c]) = 10 * mathInt Z + digitValue c"
  by (simp add: mathInt_def)

lemma mathInt_natDigits: "mathInt (natDigits n) = n"
proof (induction n rule: natDigits.induct)
  case (1 n)
  have unfolded: "natDigits n =
     (if n < 10 then [of_nat (48 + n)]
      else natDigits (n div 10) @ [of_nat (48 + n mod 10)])"
    by (rule natDigits.simps)
  show ?case
  proof (cases "n < 10")
    case True
    then have "mathInt (natDigits n) = digitValue (of_nat (48 + n))"
      unfolding unfolded by (simp add: mathInt_def del: of_nat_add)
    then show ?thesis
      by (simp only: digit_unit_value [OF True])
  next
    case False
    have "n mod 10 < 10" by simp
    from False have "mathInt (natDigits n) =
        10 * mathInt (natDigits (n div 10)) + digitValue (of_nat (48 + n mod 10))"
      unfolding unfolded by (simp add: mathInt_snoc del: of_nat_add)
    also have "\<dots> = 10 * (n div 10) + n mod 10"
      by (simp only: 1 [OF False] digit_unit_value [OF \<open>n mod 10 < 10\<close>])
    finally show ?thesis by simp
  qed
qed

lemma point_not_digit: "\<not> isDigit 0x2E"
  by (simp add: isDigit_def)

text \<open>
  The digits of \<open>n\<close>, alone or followed by anything that does not start with a digit,
  parse to \<open>n\<close>.
\<close>

lemma parseInt10_natDigits_then:
  assumes "rest = [] \<or> \<not> isDigit (hd rest)"
  shows "parseInt10 (natDigits n @ rest) = Some (int n)"
proof -
  obtain c cs where cs: "natDigits n = c # cs"
    using natDigits_nonempty [of n] by (cases "natDigits n") auto
  have d: "isDigit c"
    using natDigits_all_digits [of c n] cs by simp
  have dw: "dropWhile isWhiteSpace ((c # cs) @ rest) = (c # cs) @ rest"
    using isDigit_not_space [OF d] by simp
  have stop: "takeWhile isDigit rest = []"
    using assms by (cases rest) auto
  have "takeWhile isDigit (natDigits n @ rest) = natDigits n @ takeWhile isDigit rest"
    using natDigits_all_digits by (intro takeWhile_append2) auto
  then have tw: "takeWhile isDigit (cs @ rest) = cs"
    using d by (simp add: cs stop)
  have mi: "mathInt (c # cs) = n"
    using mathInt_natDigits [of n] by (simp add: cs)
  show ?thesis
    unfolding cs parseInt10_def Let_def dw
    using isDigit_not_sign [OF d] d by (simp add: tw mi)
qed

lemma validateTimestamp_digits_above:
  assumes "4102444800 < n" "rest = [] \<or> \<not> isDigit (hd rest)"
  shows "validateTimestamp (JString (natDigits n @ rest)) = None"
  using assms(1) natDigits_nonempty [of n]
  by (simp add: validateTimestamp_def parseInt10_natDigits_then [OF assms(2)]
      MAX_TIMESTAMP_def MIN_TIMESTAMP_def)

text \<open>
  C9, as the claim states it, fails: it speaks of every finite number above
  \<open>4102444800\<close>, and \<open>4102444800.5\<close> is one. The predicate accepts it, its decimal
  string is \<^verbatim>\<open>"4102444800.5"\<close>, and \<^verbatim>\<open>validateTimestamp\<close> of that string is
  \<open>4102444800\<close>, not null: \<^verbatim>\<open>parseInt\<close> stops at the point.
\<close>

theorem isValidTimestamp_fraction:
  "isValidTimestamp (JNumber (Finite (8204889601 / 2))) \<and>
   (4102444800 :: rat) < 8204889601 / 2 \<and>
   numberToString (8204889601 / 2) (utf16 ''5'') = Some (utf16 ''4102444800.5'') \<and>
   validateTimestamp (JString (utf16 ''4102444800.5'')) = Some 4102444800"
proof -
  have f: "\<lfloor>8204889601 / 2 :: rat\<rfloor> = 4102444800"
    by (rule floor_unique) simp_all
  have s: "numberToString (8204889601 / 2) (utf16 ''5'') = Some (utf16 ''4102444800.5'')"
    by (simp add: numberToString_def f natDigits.simps utf16_def)
  show ?thesis
    unfolding s
    by (simp add: isValidTimestamp_def validateTimestamp_def parseInt10_def utf16_def
        isWhiteSpace_def isDigit_def mathInt_def digitValue_def MIN_TIMESTAMP_def
        MAX_TIMESTAMP_def)
qed

text \<open>
  C9, amended: \<^verbatim>\<open>isValidTimestamp(value)\<close> is true iff \<open>value\<close> is a finite number and
  \<open>value \<ge> 0\<close>; it does not enforce the upper bound, so for every finite number \<open>x\<close>
  whose integer part is above \<open>4102444800\<close> (that is, \<open>x \<ge> 4102444801\<close>) and which is
  below \<open>2\<^sup>5\<^sup>3\<close>, integral or not, the predicate holds of \<open>x\<close> while
  \<^verbatim>\<open>validateTimestamp\<close> of the decimal string of \<open>x\<close> is null, whatever its fraction
  digits.
\<close>

theorem isValidTimestamp_looser:
  "(isValidTimestamp v \<longleftrightarrow> (\<exists>x. v = JNumber (Finite x) \<and> 0 \<le> x)) \<and>
   (4102444800 < \<lfloor>x\<rfloor> \<and> x < 9007199254740992 \<longrightarrow>
      isValidTimestamp (JNumber (Finite x)) \<and>
      (case numberToString x fraction of
         None \<Rightarrow> False
       | Some s \<Rightarrow> validateTimestamp (JString s) = None))"
proof (intro conjI impI)
  show "isValidTimestamp v \<longleftrightarrow> (\<exists>x. v = JNumber (Finite x) \<and> 0 \<le> x)"
    by (auto simp add: isValidTimestamp_def split: jsval.splits jsnum.splits)
next
  assume a: "4102444800 < \<lfloor>x\<rfloor> \<and> x < 9007199254740992"
  then have i: "4102444800 < \<lfloor>x\<rfloor>" by (rule conjunct1)
  then have fl: "4102444800 < nat \<lfloor>x\<rfloor>" by linarith
  have big: "4102444800 < x" using a by simp
  from big show "isValidTimestamp (JNumber (Finite x))"
    by (simp add: isValidTimestamp_def)
  have "rest = [] \<or> \<not> isDigit (hd rest)"
    if "rest = (if of_int \<lfloor>x\<rfloor> = x then [] else 0x2E # fraction)" for rest
    using that point_not_digit by simp
  then have "validateTimestamp
      (JString (natDigits (nat \<lfloor>x\<rfloor>) @ (if of_int \<lfloor>x\<rfloor> = x then [] else 0x2E # fraction))) = None"
    using validateTimestamp_digits_above [OF fl] by blast
  then show "case numberToString x fraction of
         None \<Rightarrow> False
       | Some s \<Rightarrow> validateTimestamp (JString s) = None"
    using a big by (simp add: numberToString_def)
qed

text \<open>
  Witness for C9: \<open>4102444801.5\<close>, whose decimal string is \<^verbatim>\<open>"4102444801.5"\<close>, and
  \<open>4102444801\<close>, whose decimal string is \<^verbatim>\<open>"4102444801"\<close>.
\<close>

theorem isValidTimestamp_looser_witness:
  "(4102444800 :: int) < \<lfloor>8204889603 / 2 :: rat\<rfloor> \<and>
   (8204889603 / 2 :: rat) < 9007199254740992 \<and>
   isValidTimestamp (JNumber (Finite (8204889603 / 2))) \<and>
   numberToString (8204889603 / 2) (utf16 ''5'') = Some (utf16 ''4102444801.5'') \<and>
   validateTimestamp (JString (utf16 ''4102444801.5'')) = None \<and>
   isValidTimestamp (JNumber (Finite 4102444801)) \<and>
   numberToString 4102444801 [] = Some (utf16 ''4102444801'') \<and>
   validateTimestamp (JString (utf16 ''4102444801'')) = None"
proof -
  have f: "\<lfloor>8204889603 / 2 :: rat\<rfloor> = 4102444801"
    by (rule floor_unique) simp_all
  have s: "numberToString (8204889603 / 2) (utf16 ''5'') = Some (utf16 ''4102444801.5'')"
    by (simp add: numberToString_def f natDigits.simps utf16_def)
  have i: "numberToString 4102444801 [] = Some (utf16 ''4102444801'')"
    by (simp add: numberToString_def natDigits.simps utf16_def)
  from isValidTimestamp_looser [of _ "8204889603 / 2" "utf16 ''5''"]
    isValidTimestamp_looser [of _ 4102444801 "[]"] f s i
  show ?thesis by simp
qed

section \<open>The retry of \<^verbatim>\<open>formatTimestamp\<close>\<close>

text \<open>
  The recursive call always passes \<^verbatim>\<open>'UTC'\<close>, so a second failure of the same kind
  repeats for ever: the call with \<^verbatim>\<open>'UTC'\<close> is \<open>secondAttempt\<close>, and the function
  unfolds to a form without recursion.
\<close>

lemma utf16_UTC_nonempty: "utf16 ''UTC'' \<noteq> []"
  by (simp add: utf16_def)

lemma formatTimestamp_UTC_loop:
  assumes e: "tryBlock h ts (utf16 ''UTC'') mode = Inl e" "isTimezoneError e"
    and ts: "0 \<le> ts" and m: "mode \<noteq> JUndefined"
  shows "formatTimestamp h (JNumber (Finite ts)) (JString (utf16 ''UTC'')) mode = None"
proof (rule ccontr)
  assume "formatTimestamp h (JNumber (Finite ts)) (JString (utf16 ''UTC'')) mode \<noteq> None"
  then obtain y where y: "formatTimestamp h (JNumber (Finite ts)) (JString (utf16 ''UTC'')) mode = Some y"
    by auto
  define P where "P = (\<lambda>h' t' z' m' (r :: exn + jsstring).
    \<not> (h' = h \<and> t' = JNumber (Finite ts) \<and> z' = JString (utf16 ''UTC'') \<and> m' = mode))"
  have "P h (JNumber (Finite ts)) (JString (utf16 ''UTC'')) mode y"
  proof (rule formatTimestamp.raw_induct [where P = P, OF _ y], goal_cases)
    case (1 f h' t' z' m' r)
    show ?case
      unfolding P_def
    proof
      assume a: "h' = h \<and> t' = JNumber (Finite ts) \<and> z' = JString (utf16 ''UTC'') \<and> m' = mode"
      with 1(2) e ts m have "f h (JNumber (Finite ts)) (JString (utf16 ''UTC'')) mode = Some r"
        by (simp add: utf16_UTC_nonempty withDefault_def)
      from 1(1) [OF this] show False by (simp add: P_def)
    qed
  qed
  then show False by (simp add: P_def)
qed

lemma formatTimestamp_UTC:
  assumes "0 \<le> ts" "mode \<noteq> JUndefined"
  shows "formatTimestamp h (JNumber (Finite ts)) (JString (utf16 ''UTC'')) mode =
         (case tryBlock h ts (utf16 ''UTC'') mode of
            Inr s \<Rightarrow> Some (Inr s)
          | Inl error \<Rightarrow> if isTimezoneError error then None else Some (Inl error))"
proof (cases "tryBlock h ts (utf16 ''UTC'') mode")
  case (Inr s)
  then show ?thesis using assms
    by (subst formatTimestamp.simps) (simp add: utf16_UTC_nonempty withDefault_def)
next
  case (Inl e)
  show ?thesis
  proof (cases "isTimezoneError e")
    case False
    then show ?thesis using assms Inl
      by (subst formatTimestamp.simps) (simp add: utf16_UTC_nonempty withDefault_def)
  next
    case True
    then show ?thesis
      using formatTimestamp_UTC_loop [OF Inl True assms] Inl by simp
  qed
qed

lemma withDefault_defined: "withDefault v (d # ds) \<noteq> JUndefined"
  by (simp add: withDefault_def utf16_def)

lemma formatTimestamp_outcome:
  "formatTimestamp h timestamp timezone mode =
     outcome (\<lambda>ts tz. tryBlock h ts tz (withDefault mode ''default'')) timestamp
       (withDefault timezone ''UTC'')"
proof -
  have m: "withDefault mode ''default'' \<noteq> JUndefined"
    by (rule withDefault_defined)
  show ?thesis
    by (subst formatTimestamp.simps)
       (auto simp add: Let_def outcome_def formatTimestamp_UTC [OF _ m]
          split: jsval.splits jsnum.splits sum.splits)
qed

section \<open>Running on the two hosts\<close>

lemmas host_simps = outcome_def withDefault_def tryBlock_def newDate_def withTimeZone_def
  engineHost_def inSydney_def utf16_def

lemma engineHost_default_UTC:
  "formatTimestamp engineHost (JNumber (Finite 1747510600)) (JString (utf16 ''UTC''))
     (JString (utf16 ''default'')) = Some (Inr (utf16 ''Sat 17 May 2025 at 7:36 pm''))"
  by (simp add: formatTimestamp_outcome host_simps)

lemma engineHost_unknown_zone:
  "formatTimestamp engineHost (JNumber (Finite 1747510600)) (JString (utf16 ''Not/AZone''))
     (JString (utf16 ''default'')) =
   Some (Inl (RangeError (utf16 ''Invalid time zone specified: Not/AZone'')))"
  by (simp add: formatTimestamp_outcome host_simps)

section \<open>Preconditions\<close>

text \<open>
  C3, as the claim states it, fails: an absent time zone is not an error. The parameter
  has the default \<^verbatim>\<open>'UTC'\<close>, so the call with \<^verbatim>\<open>undefined\<close> in that place renders in UTC.
\<close>

theorem formatTimestamp_absent_timezone:
  "formatTimestamp engineHost (JNumber (Finite 1747510600)) JUndefined
     (JString (utf16 ''default'')) = Some (Inr (utf16 ''Sat 17 May 2025 at 7:36 pm''))"
  by (simp add: formatTimestamp_outcome host_simps)

text \<open>
  C3, amended: \<^verbatim>\<open>formatTimestamp\<close> raises the invalid-timestamp error whenever the
  timestamp is not a finite number or is negative; for a finite timestamp that is not
  negative it raises the invalid-timezone error whenever the time zone is the empty
  string or a value other than a string and other than \<^verbatim>\<open>undefined\<close> (for instance
  \<^verbatim>\<open>null\<close>); an absent (\<^verbatim>\<open>undefined\<close>) time zone is replaced by \<^verbatim>\<open>'UTC'\<close>. Both
  errors are raised, not recovered from.
\<close>

theorem formatTimestamp_preconditions:
  "((\<forall>x. timestamp = JNumber (Finite x) \<longrightarrow> x < 0) \<longrightarrow>
      formatTimestamp h timestamp timezone mode =
        Some (Inl (Error (utf16 ''Invalid timestamp: must be a positive finite number'')))) \<and>
   (timestamp = JNumber (Finite x) \<and> 0 \<le> x \<and> timezone \<noteq> JUndefined \<and>
    (\<forall>tz. timezone = JString tz \<longrightarrow> tz = []) \<longrightarrow>
      formatTimestamp h timestamp timezone mode =
        Some (Inl (Error (utf16 ''Invalid timezone: must be a non-empty string'')))) \<and>
   formatTimestamp h timestamp JUndefined mode =
     formatTimestamp h timestamp (JString (utf16 ''UTC'')) mode"
  by (auto simp add: formatTimestamp_outcome outcome_def withDefault_def
      split: jsval.splits jsnum.splits)

text \<open>
  Witness for C3: the timestamp \<open>-1\<close>, then the timestamp \<open>1747510600\<close> with the empty
  string and with \<^verbatim>\<open>null\<close> as the time zone.
\<close>

theorem formatTimestamp_preconditions_witness:
  "formatTimestamp engineHost (JNumber (Finite (- 1))) (JString (utf16 ''UTC''))
     (JString (utf16 ''default'')) =
     Some (Inl (Error (utf16 ''Invalid timestamp: must be a positive finite number''))) \<and>
   formatTimestamp engineHost (JNumber (Finite 1747510600)) (JString [])
     (JString (utf16 ''default'')) =
     Some (Inl (Error (utf16 ''Invalid timezone: must be a non-empty string''))) \<and>
   formatTimestamp engineHost (JNumber (Finite 1747510600)) JNull
     (JString (utf16 ''default'')) =
     Some (Inl (Error (utf16 ''Invalid timezone: must be a non-empty string'')))"
  using formatTimestamp_preconditions [of "JNumber (Finite (- 1))" engineHost
      "JString (utf16 ''UTC'')" "JString (utf16 ''default'')" 0]
    formatTimestamp_preconditions [of "JNumber (Finite 1747510600)" engineHost
      "JString []" "JString (utf16 ''default'')" 1747510600]
    formatTimestamp_preconditions [of "JNumber (Finite 1747510600)" engineHost
      "JNull" "JString (utf16 ''default'')" 1747510600]
  by simp

section \<open>The time zone fallback\<close>

text \<open>
  What the \<^verbatim>\<open>catch\<close> clause does when its test succeeds: for an identifier the host
  rejects with a message that contains \<^verbatim>\<open>timezone\<close>, the result is that of the call
  with \<^verbatim>\<open>'UTC'\<close>, in every mode.
\<close>

lemma formatTimestamp_fallback_general:
  assumes "0 \<le> t" "tz \<noteq> []" "\<not> isValidTimeZone h tz"
    "includes_js (timeZoneErrorMessage h tz) (utf16 ''timezone'')"
  shows "formatTimestamp h (JNumber (Finite t)) (JString tz) mode =
         formatTimestamp h (JNumber (Finite t)) (JString (utf16 ''UTC'')) mode"
proof -
  define m where "m = withDefault mode ''default''"
  have utc: "utf16 ''UTC'' \<noteq> []" by (rule utf16_UTC_nonempty)
  show ?thesis
  proof (cases "newDate (t * 1000)")
    case None
    then show ?thesis using assms utc
      by (simp add: formatTimestamp_outcome outcome_def withDefault_def tryBlock_def)
  next
    case (Some date)
    show ?thesis
    proof (cases "m = JString (utf16 ''relative'')")
      case True
      then have "\<And>z. tryBlock h t z m = getRelativeTime h (Some date)"
        by (simp add: tryBlock_def Some utf16_def)
      then show ?thesis using assms utc
        by (simp add: formatTimestamp_outcome outcome_def m_def [symmetric]
            withDefault_def [of "JString _"])
    next
      case False
      then have "tryBlock h t tz m = Inl (RangeError (timeZoneErrorMessage h tz))"
        using assms by (simp add: tryBlock_def Some withTimeZone_def)
      then show ?thesis using assms utc
        by (auto simp add: formatTimestamp_outcome outcome_def m_def [symmetric]
            withDefault_def [of "JString _"] split: sum.splits)
    qed
  qed
qed

text \<open>A failure that the test of the \<^verbatim>\<open>catch\<close> clause does not match is thrown again as it is.\<close>

lemma formatTimestamp_other_failure:
  assumes "0 \<le> t" "tz \<noteq> []" "tryBlock h t tz (withDefault mode ''default'') = Inl e"
    "\<not> isTimezoneError e"
  shows "formatTimestamp h (JNumber (Finite t)) (JString tz) mode = Some (Inl e)"
  using assms by (simp add: formatTimestamp_outcome outcome_def withDefault_def [of "JString tz"])

text \<open>
  C2: the claim is what the source sets out to do (its comment reads
  \<^verbatim>\<open>Handle timezone errors gracefully\<close> and it warns \<^verbatim>\<open>falling back to UTC\<close>), but the
  test of the \<^verbatim>\<open>catch\<close> clause looks for the word \<^verbatim>\<open>timezone\<close> in the message, and the
  message of the engines reads \<^verbatim>\<open>time zone\<close>. On the host with V8's message the call
  \<^verbatim>\<open>formatTimestamp(1747510600, 'Not/AZone', 'default')\<close> does not fall back: the
  \<^verbatim>\<open>RangeError\<close> is thrown again, where the call with \<^verbatim>\<open>'UTC'\<close> returns a string.
\<close>

theorem formatTimestamp_unknown_zone_rethrown:
  "\<not> isValidTimeZone engineHost (utf16 ''Not/AZone'') \<and>
   formatTimestamp engineHost (JNumber (Finite 1747510600)) (JString (utf16 ''Not/AZone''))
     (JString (utf16 ''default'')) =
     Some (Inl (RangeError (utf16 ''Invalid time zone specified: Not/AZone''))) \<and>
   formatTimestamp engineHost (JNumber (Finite 1747510600)) (JString (utf16 ''UTC''))
     (JString (utf16 ''default'')) = Some (Inr (utf16 ''Sat 17 May 2025 at 7:36 pm''))"
  using engineHost_default_UTC engineHost_unknown_zone
  by (simp add: engineHost_def utf16_def)

section \<open>Mode dispatch\<close>

lemma tryBlock_unrecognized_mode:
  assumes "mode \<noteq> JString (utf16 ''date'')" "mode \<noteq> JString (utf16 ''compact'')"
    "mode \<noteq> JString (utf16 ''iso'')" "mode \<noteq> JString (utf16 ''relative'')"
  shows "tryBlock h ts tz mode = tryBlock h ts tz (JString (utf16 ''default''))"
  using assms by (simp add: tryBlock_def utf16_def split: option.splits)

text \<open>
  C7: a mode that is none of \<^verbatim>\<open>date\<close>, \<^verbatim>\<open>compact\<close>, \<^verbatim>\<open>iso\<close>, \<^verbatim>\<open>relative\<close> (and so,
  in particular, one that is not a member of the enumeration) reaches the \<^verbatim>\<open>default\<close>
  label: for every timestamp and time zone, \<^verbatim>\<open>formatTimestamp(t, z, m)\<close> is
  \<^verbatim>\<open>formatTimestamp(t, z, 'default')\<close>, the same string or the same failure.
\<close>

theorem formatTimestamp_unrecognized_mode:
  assumes "mode \<noteq> JString (utf16 ''date'')" "mode \<noteq> JString (utf16 ''compact'')"
    "mode \<noteq> JString (utf16 ''iso'')" "mode \<noteq> JString (utf16 ''relative'')"
  shows "formatTimestamp h timestamp timezone mode =
         formatTimestamp h timestamp timezone (JString (utf16 ''default''))"
proof -
  have "\<And>ts tz. tryBlock h ts tz (withDefault mode ''default'') =
          tryBlock h ts tz (withDefault (JString (utf16 ''default'')) ''default'')"
    using assms by (simp add: withDefault_def tryBlock_unrecognized_mode)
  then show ?thesis
    by (simp only: formatTimestamp_outcome)
qed

text \<open>
  Witness for C7: the mode \<^verbatim>\<open>'fancy'\<close>, for \<open>1747510600\<close> in \<^verbatim>\<open>Australia/Sydney\<close>.
\<close>

theorem formatTimestamp_unrecognized_mode_witness:
  "JString (utf16 ''fancy'') \<noteq> JString (utf16 ''date'') \<and>
   JString (utf16 ''fancy'') \<noteq> JString (utf16 ''compact'') \<and>
   JString (utf16 ''fancy'') \<noteq> JString (utf16 ''iso'') \<and>
   JString (utf16 ''fancy'') \<noteq> JString (utf16 ''relative'') \<and>
   formatTimestamp engineHost (JNumber (Finite 1747510600))
     (JString (utf16 ''Australia/Sydney'')) (JString (utf16 ''fancy'')) =
   Some (Inr (utf16 ''Sun 18 May 2025 at 5:36 am''))"
proof -
  have d: "JString (utf16 ''fancy'') \<noteq> JString (utf16 ''date'')"
    "JString (utf16 ''fancy'') \<noteq> JString (utf16 ''compact'')"
    "JString (utf16 ''fancy'') \<noteq> JString (utf16 ''iso'')"
    "JString (utf16 ''fancy'') \<noteq> JString (utf16 ''relative'')"
    by (simp_all add: utf16_def)
  have "formatTimestamp engineHost (JNumber (Finite 1747510600))
     (JString (utf16 ''Australia/Sydney'')) (JString (utf16 ''default'')) =
     Some (Inr (utf16 ''Sun 18 May 2025 at 5:36 am''))"
    by (simp add: formatTimestamp_outcome host_simps)
  with d formatTimestamp_unrecognized_mode [OF d, of engineHost "JNumber (Finite 1747510600)"
      "JString (utf16 ''Australia/Sydney'')"]
  show ?thesis by simp
qed

section \<open>Determinism\<close>

lemma tryBlock_clock:
  assumes "mode \<noteq> JString (utf16 ''relative'')"
  shows "tryBlock (h\<lparr>now := n\<rparr>) ts tz mode = tryBlock h ts tz mode"
  using assms by (auto simp add: tryBlock_def withTimeZone_def split: option.splits sum.splits)

lemma default_not_relative: "JString (utf16 ''default'') \<noteq> JString (utf16 ''relative'')"
  by (simp add: utf16_def)

text \<open>
  C6, as the claim states it, fails: the result is not the same in different host
  environments. The text is produced by the locale data of the host, and two engines that
  differ only in that data (the \<^verbatim>\<open>en-GB\<close> pattern with \<^verbatim>\<open>at\<close>, or with commas) return
  different strings for the same timestamp, time zone and mode.
\<close>

theorem formatTimestamp_host_dependent:
  "formatTimestamp engineHost (JNumber (Finite 1747510600)) (JString (utf16 ''UTC''))
     (JString (utf16 ''default'')) = Some (Inr (utf16 ''Sat 17 May 2025 at 7:36 pm'')) \<and>
   formatTimestamp olderHost (JNumber (Finite 1747510600)) (JString (utf16 ''UTC''))
     (JString (utf16 ''default'')) = Some (Inr (utf16 ''Sat, 17 May 2025, 7:36 pm''))"
  by (simp add: formatTimestamp_outcome host_simps olderHost_def)

text \<open>
  The mode \<^verbatim>\<open>iso\<close> depends on the host in one more way: the rendering in the requested
  zone is read back by \<^verbatim>\<open>new Date(string)\<close> in the local zone of the host, so the same
  engine gives the wall-clock time of the requested zone only where the local zone is
  UTC.
\<close>

lemma formatTimestamp_iso_local_zone:
  "formatTimestamp engineHost (JNumber (Finite 1747510600))
     (JString (utf16 ''Australia/Sydney'')) (JString (utf16 ''iso'')) =
     Some (Inr (utf16 ''2025-05-18T05:36:40'')) \<and>
   formatTimestamp sydneyLocalHost (JNumber (Finite 1747510600))
     (JString (utf16 ''Australia/Sydney'')) (JString (utf16 ''iso'')) =
     Some (Inr (utf16 ''2025-05-17T19:36:40''))"
  by (simp add: formatTimestamp_outcome host_simps sydneyLocalHost_def)

text \<open>
  C6, amended: within one host environment, for the modes \<^verbatim>\<open>default\<close>, \<^verbatim>\<open>date\<close>,
  \<^verbatim>\<open>compact\<close> and \<^verbatim>\<open>iso\<close> (every mode but \<^verbatim>\<open>relative\<close>), the result of
  \<^verbatim>\<open>formatTimestamp\<close> is determined by the timestamp, the time zone and the mode: it does
  not depend on the time of the call, so calls at different times return the same.
\<close>

theorem formatTimestamp_clock_independent:
  assumes "mode \<noteq> JString (utf16 ''relative'')"
  shows "formatTimestamp (h\<lparr>now := n\<rparr>) timestamp timezone mode =
         formatTimestamp h timestamp timezone mode"
proof -
  have "withDefault mode ''default'' \<noteq> JString (utf16 ''relative'')"
    using assms default_not_relative by (simp add: withDefault_def)
  then have "(\<lambda>ts tz. tryBlock (h\<lparr>now := n\<rparr>) ts tz (withDefault mode ''default'')) =
             (\<lambda>ts tz. tryBlock h ts tz (withDefault mode ''default''))"
    by (intro ext tryBlock_clock)
  then show ?thesis
    by (simp only: formatTimestamp_outcome)
qed

text \<open>
  Witness for C6: the mode \<^verbatim>\<open>iso\<close>, the clock moved a day ahead.
\<close>

theorem formatTimestamp_clock_independent_witness:
  "JString (utf16 ''iso'') \<noteq> JString (utf16 ''relative'') \<and>
   formatTimestamp (engineHost\<lparr>now := 1747597000000\<rparr>) (JNumber (Finite 1747510600))
     (JString (utf16 ''Australia/Sydney'')) (JString (utf16 ''iso'')) =
   Some (Inr (utf16 ''2025-05-18T05:36:40''))"
proof -
  have d: "JString (utf16 ''iso'') \<noteq> JString (utf16 ''relative'')"
    by (simp add: utf16_def)
  have "formatTimestamp engineHost (JNumber (Finite 1747510600))
     (JString (utf16 ''Australia/Sydney'')) (JString (utf16 ''iso'')) =
     Some (Inr (utf16 ''2025-05-18T05:36:40''))"
    by (simp add: formatTimestamp_outcome host_simps)
  with d formatTimestamp_clock_independent [OF d, where h = engineHost and n = 1747597000000
      and timestamp = "JNumber (Finite 1747510600)"
      and timezone = "JString (utf16 ''Australia/Sydney'')"]
  show ?thesis by simp
qed

section \<open>The safe wrapper\<close>

lemma formatTimestamp_defaults:
  "formatTimestamp h timestamp (withDefault timezone ''UTC'') (withDefault mode ''default'') =
   formatTimestamp h timestamp timezone mode"
proof -
  have "\<And>v d. withDefault (withDefault v d) d = withDefault v d"
    by (simp add: withDefault_def)
  then show ?thesis
    by (simp only: formatTimestamp_outcome)
qed

text \<open>
  C8: \<^verbatim>\<open>safeFormatTimestamp\<close> returns the string of \<^verbatim>\<open>formatTimestamp\<close> when that call
  succeeds, and the fallback the caller supplied whenever it raises, whatever the error:
  nothing is propagated. \<^verbatim>\<open>safeFormatTimestamp(-1, "UTC", "default", "Error occurred")\<close>
  is \<^verbatim>\<open>"Error occurred"\<close>.
\<close>

theorem safeFormatTimestamp_absorbs:
  "(formatTimestamp h timestamp timezone mode = Some (Inr s) \<longrightarrow>
      safeFormatTimestamp h timestamp timezone mode fallback = Some (JString s)) \<and>
   (formatTimestamp h timestamp timezone mode = Some (Inl e) \<and> fallback \<noteq> JUndefined \<longrightarrow>
      safeFormatTimestamp h timestamp timezone mode fallback = Some fallback) \<and>
   safeFormatTimestamp h (JNumber (Finite (- 1))) (JString (utf16 ''UTC''))
     (JString (utf16 ''default'')) (JString (utf16 ''Error occurred'')) =
     Some (JString (utf16 ''Error occurred''))"
proof (intro conjI impI)
  assume "formatTimestamp h timestamp timezone mode = Some (Inr s)"
  then show "safeFormatTimestamp h timestamp timezone mode fallback = Some (JString s)"
    by (simp add: safeFormatTimestamp_def formatTimestamp_defaults)
next
  assume "formatTimestamp h timestamp timezone mode = Some (Inl e) \<and> fallback \<noteq> JUndefined"
  then show "safeFormatTimestamp h timestamp timezone mode fallback = Some fallback"
    by (simp add: safeFormatTimestamp_def formatTimestamp_defaults withDefault_def [of fallback])
next
  have "formatTimestamp h (JNumber (Finite (- 1))) (JString (utf16 ''UTC''))
     (JString (utf16 ''default'')) =
     Some (Inl (Error (utf16 ''Invalid timestamp: must be a positive finite number'')))"
    by (simp add: formatTimestamp_outcome outcome_def)
  then show "safeFormatTimestamp h (JNumber (Finite (- 1))) (JString (utf16 ''UTC''))
     (JString (utf16 ''default'')) (JString (utf16 ''Error occurred'')) =
     Some (JString (utf16 ''Error occurred''))"
    by (simp add: safeFormatTimestamp_def formatTimestamp_defaults
        withDefault_def [of "JString (utf16 ''Error occurred'')"])
qed

text \<open>
  Witness for C8: a call that succeeds, and a call that raises a \<^verbatim>\<open>RangeError\<close> (the
  time zone the host rejects).
\<close>

theorem safeFormatTimestamp_absorbs_witness:
  "safeFormatTimestamp engineHost (JNumber (Finite 1747510600)) (JString (utf16 ''UTC''))
     (JString (utf16 ''default'')) (JString (utf16 ''Error occurred'')) =
     Some (JString (utf16 ''Sat 17 May 2025 at 7:36 pm'')) \<and>
   safeFormatTimestamp engineHost (JNumber (Finite 1747510600))
     (JString (utf16 ''Not/AZone'')) (JString (utf16 ''default''))
     (JString (utf16 ''Error occurred'')) = Some (JString (utf16 ''Error occurred''))"
proof -
  have c: "JString (utf16 ''Error occurred'') \<noteq> JUndefined" by simp
  from engineHost_default_UTC engineHost_unknown_zone c
    safeFormatTimestamp_absorbs [of engineHost "JNumber (Finite 1747510600)"
      "JString (utf16 ''UTC'')" "JString (utf16 ''default'')"
      "utf16 ''Sat 17 May 2025 at 7:36 pm''" "JString (utf16 ''Error occurred'')"]
    safeFormatTimestamp_absorbs [of engineHost "JNumber (Finite 1747510600)"
      "JString (utf16 ''Not/AZone'')" "JString (utf16 ''default'')" _
      "JString (utf16 ''Error occurred'')"
      "RangeError (utf16 ''Invalid time zone specified: Not/AZone'')"]
  show ?thesis by blast
qed

section \<open>The invalid date branch\<close>

lemma newDate_in_range:
  assumes "0 \<le> t" "t \<le> 4102444800"
  shows "\<exists>date. newDate (t * 1000) = Some date"
  using assms by (simp add: newDate_def)

lemma newDate_beyond:
  assumes "8640000000000 < t"
  shows "newDate (t * 1000) = None"
  using assms by (simp add: newDate_def)

lemma getRelativeTime_returns: "\<exists>s. getRelativeTime h (Some date) = Inr s"
  by (simp add: getRelativeTime_def Let_def)

lemma tryBlock_in_range:
  assumes "0 \<le> t" "t \<le> 4102444800"
  shows "tryBlock h t tz mode \<noteq> Inl (Error (utf16 ''Invalid timestamp: results in invalid date''))"
proof -
  from newDate_in_range [OF assms] obtain date where d: "newDate (t * 1000) = Some date" ..
  obtain s where s: "getRelativeTime h (Some date) = Inr s"
    using getRelativeTime_returns by blast
  show ?thesis
    by (auto simp add: tryBlock_def d s withTimeZone_def split: sum.splits option.splits)
qed

lemma messages_differ:
  "utf16 ''Invalid timezone: must be a non-empty string'' \<noteq>
   utf16 ''Invalid timestamp: results in invalid date''"
  by (simp add: utf16_def)

text \<open>
  C10: for every timestamp \<open>t\<close> with \<open>0 \<le> t \<le> 4102444800\<close> the date built from
  \<open>t * 1000\<close> is valid and \<^verbatim>\<open>formatTimestamp\<close> never raises
  \<^verbatim>\<open>Invalid timestamp: results in invalid date\<close>; yet every finite timestamp above
  \<open>8.64 \<times> 10\<^sup>1\<^sup>2\<close> seconds passes the two explicit checks (it is finite and not negative,
  the time zone a non-empty string) and raises exactly that error. The product is exact
  in the model; rounding it to a double is monotone and leaves both bounds in place.
\<close>

theorem invalid_date_branch:
  "(0 \<le> t \<and> t \<le> 4102444800 \<longrightarrow>
      newDate (t * 1000) \<noteq> None \<and>
      formatTimestamp h (JNumber (Finite t)) timezone mode \<noteq>
        Some (Inl (Error (utf16 ''Invalid timestamp: results in invalid date'')))) \<and>
   (8640000000000 < t \<and> tz \<noteq> [] \<longrightarrow>
      isValidTimestamp (JNumber (Finite t)) \<and>
      formatTimestamp h (JNumber (Finite t)) (JString tz) mode =
        Some (Inl (Error (utf16 ''Invalid timestamp: results in invalid date''))))"
proof (intro conjI impI)
  assume a: "0 \<le> t \<and> t \<le> 4102444800"
  then show "newDate (t * 1000) \<noteq> None"
    using newDate_in_range [of t] by auto
  have "\<And>tz m. tryBlock h t tz m \<noteq> Inl (Error (utf16 ''Invalid timestamp: results in invalid date''))"
    using a tryBlock_in_range by blast
  then show "formatTimestamp h (JNumber (Finite t)) timezone mode \<noteq>
        Some (Inl (Error (utf16 ''Invalid timestamp: results in invalid date'')))"
    using a messages_differ
    by (auto simp add: formatTimestamp_outcome outcome_def split: jsval.splits sum.splits)
next
  assume b: "8640000000000 < t \<and> tz \<noteq> []"
  then show "isValidTimestamp (JNumber (Finite t))"
    by (simp add: isValidTimestamp_def)
  have "\<And>z m. tryBlock h t z m = Inl (Error (utf16 ''Invalid timestamp: results in invalid date''))"
    using b by (simp add: tryBlock_def newDate_beyond)
  then show "formatTimestamp h (JNumber (Finite t)) (JString tz) mode =
        Some (Inl (Error (utf16 ''Invalid timestamp: results in invalid date'')))"
    using b by (simp add: formatTimestamp_outcome outcome_def withDefault_def)
qed

text \<open>
  Witness for C10: \<open>t = 1747510600\<close> inside the validated range, and
  \<open>t = 8640000000001\<close>, one second past the last instant a date can hold.
\<close>

theorem invalid_date_branch_witness:
  "newDate (1747510600 * 1000) \<noteq> None \<and>
   formatTimestamp engineHost (JNumber (Finite 1747510600)) (JString (utf16 ''UTC''))
     (JString (utf16 ''default'')) \<noteq>
     Some (Inl (Error (utf16 ''Invalid timestamp: results in invalid date''))) \<and>
   isValidTimestamp (JNumber (Finite 8640000000001)) \<and>
   formatTimestamp engineHost (JNumber (Finite 8640000000001)) (JString (utf16 ''UTC''))
     (JString (utf16 ''default'')) =
     Some (Inl (Error (utf16 ''Invalid timestamp: results in invalid date'')))"
  using invalid_date_branch [of 1747510600 engineHost "JString (utf16 ''UTC'')"
      "JString (utf16 ''default'')" "utf16 ''UTC''"]
    invalid_date_branch [of 8640000000001 engineHost "JString (utf16 ''UTC'')"
      "JString (utf16 ''default'')" "utf16 ''UTC''"]
  by (simp add: utf16_UTC_nonempty)

section \<open>Relative time: buckets and phrases\<close>

lemma utf16_append: "utf16 (a @ b) = utf16 a @ utf16 b"
  by (simp add: utf16_def)

lemma unit_texts:
  "utf16 '' year'' = utf16 '' '' @ utf16 ''year''"
  "utf16 '' week'' = utf16 '' '' @ utf16 ''week''"
  "utf16 '' second'' = utf16 '' '' @ utf16 ''second''"
  "utf16 '' minute'' = utf16 '' '' @ utf16 ''minute''"
  "utf16 '' hour'' = utf16 '' '' @ utf16 ''hour''"
  "utf16 '' day'' = utf16 '' '' @ utf16 ''day''"
  by (simp_all add: utf16_def)

lemma sign_cases:
  "(if (n::int) > 0
    then utf16 ''in '' @ intToString n @ (utf16 '' '' @ w) @ (if n = 1 then [] else utf16 ''s'')
    else intToString (- n) @ (utf16 '' '' @ w) @ (if n = - 1 then [] else utf16 ''s'') @ utf16 '' ago'')
   = (let units = w @ (if \<bar>n\<bar> = 1 then [] else utf16 ''s'')
      in if n > 0 then utf16 ''in '' @ intToString n @ utf16 '' '' @ units
         else intToString \<bar>n\<bar> @ utf16 '' '' @ units @ utf16 '' ago'')"
  by (auto simp add: Let_def)

lemma getRelativeTime_phrase:
  "getRelativeTime h (Some t) = Inr (spec_phrase (spec_selectBucket (t - now h)))"
  unfolding getRelativeTime_def spec_selectBucket_def Let_def unit_texts
  by (simp only: option.case sign_cases if_distrib [of spec_phrase] if_distrib [of Inr]
      spec_phrase.simps spec_unitName.simps)


lemma Math_round_div:
  "Math_round (of_int x / numeral d) = (2 * x + numeral d) div numeral (Num.Bit0 d)"
proof -
  have "(of_int x / numeral d + 1 / 2 :: rat) = of_int (2 * x + numeral d) / of_int (2 * numeral d)"
    by (simp add: field_simps)
  then have "Math_round (of_int x / numeral d) = (2 * x + numeral d) div (2 * numeral d)"
    unfolding Math_round_def by (simp only: floor_divide_of_int_eq)
  also have "(2 * numeral d :: int) = numeral (Num.Bit0 d)"
    by (simp only: numeral_Bit0 [of d] mult_2)
  finally show ?thesis .
qed

lemma selectBucket_int:
  "spec_selectBucket diffMs =
     (let diffSec = (2 * diffMs + 1000) div 2000;
          diffMin = (2 * diffSec + 60) div 120;
          diffHour = (2 * diffMin + 60) div 120;
          diffDay = (2 * diffHour + 24) div 48
      in if \<bar>diffDay\<bar> \<ge> 365 then (Years, (2 * diffDay + 365) div 730)
         else if \<bar>diffDay\<bar> \<ge> 7 then (Weeks, (2 * diffDay + 7) div 14)
         else if \<bar>diffSec\<bar> < 60 then (Seconds, diffSec)
         else if \<bar>diffMin\<bar> < 60 then (Minutes, diffMin)
         else if \<bar>diffHour\<bar> < 24 then (Hours, diffHour)
         else (Days, diffDay))"
  unfolding spec_selectBucket_def Math_round_div ..

lemma selectBucket_week: "spec_selectBucket 604800000 = (Weeks, 1)"
  by (simp add: selectBucket_int)

lemma selectBucket_year: "spec_selectBucket 31536000000 = (Years, 1)"
  by (simp add: selectBucket_int)

lemma selectBucket_zero: "spec_selectBucket 0 = (Seconds, 0)"
  by (simp add: selectBucket_int)

lemma intToString_small:
  "intToString 0 = utf16 ''0''" "intToString 1 = utf16 ''1''"
  by (simp_all add: intToString_def natDigits.simps utf16_def)

text \<open>
  The mode \<^verbatim>\<open>relative\<close> of \<^verbatim>\<open>formatTimestamp\<close> is this phrase, whatever the time zone.
  The date is that of the exact product; for a timestamp with a fraction the product in
  doubles can differ from it by a millisecond.
\<close>

lemma formatTimestamp_relative:
  assumes "0 \<le> t" "tz \<noteq> []" "newDate (t * 1000) = Some date"
  shows "formatTimestamp h (JNumber (Finite t)) (JString tz) (JString (utf16 ''relative'')) =
         Some (Inr (spec_phrase (spec_selectBucket (date - now h))))"
proof -
  have "tryBlock h t tz (JString (utf16 ''relative'')) =
        Inr (spec_phrase (spec_selectBucket (date - now h)))"
    using assms(3) by (simp add: tryBlock_def getRelativeTime_phrase utf16_def)
  then show ?thesis
    using assms(1,2) by (simp add: formatTimestamp_outcome outcome_def withDefault_def)
qed

text \<open>
  C4: the relative-time algorithm takes \<open>diffMs = target - now\<close>, rounds it to seconds,
  the seconds to minutes, the minutes to hours and the hours to days, each from the
  rounded unit before it, and chooses years when \<open>|diffDay| \<ge> 365\<close>
  (\<open>round(diffDay/365)\<close>), else weeks when \<open>|diffDay| \<ge> 7\<close> (\<open>round(diffDay/7)\<close>), else
  seconds when \<open>|diffSec| < 60\<close>, else minutes when \<open>|diffMin| < 60\<close>, else hours when
  \<open>|diffHour| < 24\<close>, else days. A target exactly 7 days ahead renders \<^verbatim>\<open>in 1 week\<close>, one
  exactly 365 days ahead renders in years.
\<close>

theorem relative_bucket_selection:
  "getRelativeTime h (Some t) = Inr (spec_phrase (spec_selectBucket (t - now h))) \<and>
   getRelativeTime h (Some (now h + 7 * 86400000)) = Inr (utf16 ''in 1 week'') \<and>
   getRelativeTime h (Some (now h + 365 * 86400000)) = Inr (utf16 ''in 1 year'')"
proof (intro conjI)
  show "getRelativeTime h (Some t) = Inr (spec_phrase (spec_selectBucket (t - now h)))"
    by (rule getRelativeTime_phrase)
  show "getRelativeTime h (Some (now h + 7 * 86400000)) = Inr (utf16 ''in 1 week'')"
    by (simp add: getRelativeTime_phrase selectBucket_week intToString_small)
       (simp add: utf16_def)
  show "getRelativeTime h (Some (now h + 365 * 86400000)) = Inr (utf16 ''in 1 year'')"
    by (simp add: getRelativeTime_phrase selectBucket_year intToString_small)
       (simp add: utf16_def)
qed

text \<open>
  C5: with \<open>n\<close> the magnitude of the chosen bucket, a positive \<open>n\<close> renders
  \<^verbatim>\<open>in n unit(s)\<close> and a non-positive \<open>n\<close> renders \<^verbatim>\<open>|n| unit(s) ago\<close>; the unit is
  singular exactly for \<open>n = 1\<close> and \<open>n = -1\<close>, plural for \<open>0\<close> and for \<open>|n| \<ge> 2\<close>; and a
  difference of zero renders \<^verbatim>\<open>0 seconds ago\<close>, zero not being positive.
\<close>

theorem relative_sign_and_plural:
  assumes "spec_selectBucket (t - now h) = (u, n)"
  shows "(n = 1 \<longrightarrow> getRelativeTime h (Some t) =
            Inr (utf16 ''in 1 '' @ spec_unitName u)) \<and>
         (1 < n \<longrightarrow> getRelativeTime h (Some t) =
            Inr (utf16 ''in '' @ intToString n @ utf16 '' '' @ spec_unitName u @ utf16 ''s'')) \<and>
         (n = - 1 \<longrightarrow> getRelativeTime h (Some t) =
            Inr (utf16 ''1 '' @ spec_unitName u @ utf16 '' ago'')) \<and>
         (n = 0 \<or> n < - 1 \<longrightarrow> getRelativeTime h (Some t) =
            Inr (intToString (- n) @ utf16 '' '' @ spec_unitName u @ utf16 ''s ago'')) \<and>
         getRelativeTime h (Some (now h)) = Inr (utf16 ''0 seconds ago'')"
proof -
  have z: "getRelativeTime h (Some (now h)) = Inr (utf16 ''0 seconds ago'')"
    by (simp add: getRelativeTime_phrase selectBucket_zero intToString_small)
       (simp add: utf16_def)
  have "getRelativeTime h (Some t) = Inr (spec_phrase (u, n))"
    using assms by (simp add: getRelativeTime_phrase)
  with z show ?thesis
    by (auto simp add: intToString_small Let_def utf16_append [symmetric])
qed

text \<open>
  Witness for C5: ninety seconds ahead of the clock (two minutes, plural), an hour
  behind it (singular), and the instant of the clock itself.
\<close>

theorem relative_sign_and_plural_witness:
  "getRelativeTime engineHost (Some 1747510690000) = Inr (utf16 ''in 2 minutes'') \<and>
   getRelativeTime engineHost (Some 1747507000000) = Inr (utf16 ''1 hour ago'') \<and>
   getRelativeTime engineHost (Some 1747510600000) = Inr (utf16 ''0 seconds ago'')"
proof -
  have n: "now engineHost = 1747510600000" by (simp add: engineHost_def)
  have a: "spec_selectBucket (1747510690000 - now engineHost) = (Minutes, 2)"
    by (simp add: n selectBucket_int)
  have b: "spec_selectBucket (1747507000000 - now engineHost) = (Hours, - 1)"
    by (simp add: n selectBucket_int)
  have two: "intToString 2 = utf16 ''2''"
    by (simp add: intToString_def natDigits.simps utf16_def)
  from relative_sign_and_plural [OF a] relative_sign_and_plural [OF b] two
  show ?thesis by (simp add: n) (simp add: utf16_def)
qed

end
